theory Spec2Isabelle
  imports Main
begin

unbundle bit_operations_syntax

section \<open>The digest: \<open>crypto/sha256\<close> and \<open>hash\<close>\<close>

text \<open>
  \<open>hash\<close> (main.go, line 93) formats \<open>sha256.Sum256([]byte(content))\<close> with
  \<open>fmt.Sprintf("%x", h)\<close>. The digest is Go's standard library; it is written
  out here after FIPS 180-4, in the shape of Go's generic block function, so that
  fingerprints of concrete contents can be computed. A \<open>uint32\<close> is an \<open>int\<close> in
  \<open>[0, 2^32)\<close> with the wrap-around of every addition written out; a byte is an
  \<open>int\<close> in \<open>[0, 256)\<close>. A Go string is a sequence of bytes, as a HOL \<open>string\<close> is.
\<close>

type_synonym byte = int
type_synonym uint32 = int

definition K256 :: "uint32 list" where
  "K256 = [
1116352408, 1899447441, 3049323471, 3921009573,
961987163, 1508970993, 2453635748, 2870763221,
3624381080, 310598401, 607225278, 1426881987,
1925078388, 2162078206, 2614888103, 3248222580,
3835390401, 4022224774, 264347078, 604807628,
770255983, 1249150122, 1555081692, 1996064986,
2554220882, 2821834349, 2952996808, 3210313671,
3336571891, 3584528711, 113926993, 338241895,
666307205, 773529912, 1294757372, 1396182291,
1695183700, 1986661051, 2177026350, 2456956037,
2730485921, 2820302411, 3259730800, 3345764771,
3516065817, 3600352804, 4094571909, 275423344,
430227734, 506948616, 659060556, 883997877,
958139571, 1322822218, 1537002063, 1747873779,
1955562222, 2024104815, 2227730452, 2361852424,
2428436474, 2756734187, 3204031479, 3329325298]"

definition init256 :: "uint32 list" where
  "init256 = [1779033703, 3144134277, 1013904242, 2773480762,
              1359893119, 2600822924, 528734635, 1541459225]"

text \<open>32-bit arithmetic: \<open>+\<close> wraps, \<open>^x\<close> flips the low 32 bits,
  \<open>bits.RotateLeft32(x, -n)\<close> rotates to the right.\<close>

definition add32 :: "uint32 \<Rightarrow> uint32 \<Rightarrow> uint32" where
  "add32 a b = (a + b) mod 2 ^ 32"

definition not32 :: "uint32 \<Rightarrow> uint32" where
  "not32 x = 4294967295 - x"

definition shr32 :: "nat \<Rightarrow> uint32 \<Rightarrow> uint32" where
  "shr32 n x = drop_bit n x"

definition rotr32 :: "nat \<Rightarrow> uint32 \<Rightarrow> uint32" where
  "rotr32 n x = drop_bit n x OR push_bit (32 - n) (take_bit n x)"

text \<open>\<open>binary.BigEndian.Uint32\<close> on four bytes of the chunk.\<close>

definition be32 :: "byte \<Rightarrow> byte \<Rightarrow> byte \<Rightarrow> byte \<Rightarrow> uint32" where
  "be32 a b c d = push_bit 24 a OR push_bit 16 b OR push_bit 8 c OR d"

fun chunk_words :: "byte list \<Rightarrow> uint32 list" where
  "chunk_words (a # b # c # d # rest) = be32 a b c d # chunk_words rest"
| "chunk_words _ = []"

text \<open>The message schedule: \<open>w[i]\<close> for \<open>i = 16 .. 63\<close> from the sixteen words of
  the chunk; \<open>next_w w\<close> is \<open>w[i]\<close> when \<open>w\<close> holds \<open>w[0 .. i-1]\<close>.\<close>

definition next_w :: "uint32 list \<Rightarrow> uint32" where
  "next_w w =
     (let v1 = w ! (length w - 2);
          t1 = rotr32 17 v1 XOR rotr32 19 v1 XOR shr32 10 v1;
          v2 = w ! (length w - 15);
          t2 = rotr32 7 v2 XOR rotr32 18 v2 XOR shr32 3 v2
      in add32 (add32 (add32 t1 (w ! (length w - 7))) t2) (w ! (length w - 16)))"

fun extend_w :: "nat \<Rightarrow> uint32 list \<Rightarrow> uint32 list" where
  "extend_w 0 w = w"
| "extend_w (Suc n) w = extend_w n (w @ [next_w w])"

text \<open>One round on the working variables \<open>a .. h\<close>, with the round constant and
  the schedule word.\<close>

fun round256 :: "uint32 list \<Rightarrow> uint32 \<times> uint32 \<Rightarrow> uint32 list" where
  "round256 [a, b, c, d, e, f, g, h] (k, w) =
     (let t1 = add32 (add32 (add32 (add32 h (rotr32 6 e XOR rotr32 11 e XOR rotr32 25 e))
                 ((e AND f) XOR (not32 e AND g))) k) w;
          t2 = add32 (rotr32 2 a XOR rotr32 13 a XOR rotr32 22 a)
                 ((a AND b) XOR (a AND c) XOR (b AND c))
      in [add32 t1 t2, a, b, c, add32 d t1, e, f, g])"
| "round256 st _ = st"

definition block256 :: "uint32 list \<Rightarrow> byte list \<Rightarrow> uint32 list" where
  "block256 h chunk =
     map2 add32 h (foldl round256 h (zip K256 (extend_w 48 (chunk_words chunk))))"

text \<open>The loop of the block function over whole 64-byte chunks.\<close>

function blocks256 :: "uint32 list \<Rightarrow> byte list \<Rightarrow> uint32 list" where
  "blocks256 h p = (if length p < 64 then h else blocks256 (block256 h (take 64 p)) (drop 64 p))"
  by pat_completeness auto
termination
  by (relation "measure (\<lambda>(h, p). length p)") auto

text \<open>Padding as in the library's \<open>checkSum\<close>: the byte \<open>0x80\<close>, zeros up to 56
  modulo 64, and the length in bits as a big-endian \<open>uint64\<close>.\<close>

definition be_bytes :: "nat \<Rightarrow> int \<Rightarrow> byte list" where
  "be_bytes n x = map (\<lambda>i. drop_bit (8 * i) x mod 256) (rev [0..<n])"

definition padding256 :: "nat \<Rightarrow> byte list" where
  "padding256 n =
     (let t = (if n mod 64 < 56 then 56 - n mod 64 else 64 + 56 - n mod 64)
      in (0x80 # replicate (t - 1) 0) @ be_bytes 8 (push_bit 3 (int n) mod 2 ^ 64))"

definition Sum256 :: "byte list \<Rightarrow> byte list" where
  "Sum256 data = concat (map (be_bytes 4) (blocks256 init256 (data @ padding256 (length data))))"

text \<open>\<open>%x\<close> on a byte array: two lower-case hexadecimal digits for each byte.\<close>

definition hexdigit :: "int \<Rightarrow> char" where
  "hexdigit n = ''0123456789abcdef'' ! nat n"

definition Sprintf_x :: "byte list \<Rightarrow> string" where
  "Sprintf_x bs = concat (map (\<lambda>b. [hexdigit (b div 16), hexdigit (b mod 16)]) bs)"

definition bytes_of :: "string \<Rightarrow> byte list" where
  "bytes_of s = map of_char s"

definition hash :: "string \<Rightarrow> string" where
  "hash content = Sprintf_x (Sum256 (bytes_of content))"


section \<open>Configuration and the clipboard manager\<close>

text \<open>
  The structs of main.go. Go's \<open>int\<close> fields hold what the TOML decoder gives
  them and are only compared or multiplied once, so they are \<open>int\<close> here; the two
  products that become a \<open>time.Duration\<close> (an \<open>int64\<close> of nanoseconds) wrap.
\<close>

record Timeouts =
  CommandTimeout :: int
  MaxClipboardSize :: int

record SyncConfig =
  IntervalMs :: int
  EnableLogging :: bool

record LoggingConfig =
  Verbose :: bool
  LogFile :: string

record Config =
  Timeouts :: Timeouts
  Sync :: SyncConfig
  Logging :: LoggingConfig

datatype log_output = Stdout | OpenedFile string

record ClipboardManager =
  lastWaylandHash :: string
  lastX11Hash :: string
  syncInterval :: int
  commandTimeout :: int
  maxClipboardSize :: int
  enableLogging :: bool
  logWriter :: log_output

definition wrap_int64 :: "int \<Rightarrow> int" where
  "wrap_int64 x = (x + 2 ^ 63) mod 2 ^ 64 - 2 ^ 63"

definition Millisecond :: int where
  "Millisecond = 1000000"

definition Second :: int where
  "Second = 1000000000"

text \<open>
  What the operating system answers at startup: whether a tool is on the path, the
  home directory, the path functions, and whether a directory or file can be made.
  \<open>DecodeFile\<close> is \<open>toml.DecodeFile\<close> into a zero \<open>Config\<close>.
\<close>

datatype startup_error = LogDirectoryError | LogFileError | ConfigParseError

record os_env =
  LookPath :: "string \<Rightarrow> bool"
  UserHomeDir :: string
  ExpandEnv :: "string \<Rightarrow> string"
  Join :: "string \<Rightarrow> string \<Rightarrow> string"
  Dir :: "string \<Rightarrow> string"
  MkdirAll :: "string \<Rightarrow> bool"
  OpenFile :: "string \<Rightarrow> bool"
  Stat :: "string \<Rightarrow> bool"
  DecodeFile :: "string \<Rightarrow> startup_error + Config"

text \<open>
  \<open>NewClipboardManager\<close> (line 56). The struct literal at line 82 names six
  fields; \<open>lastWaylandHash\<close> and \<open>lastX11Hash\<close> are not among them and keep Go's
  zero value, the empty string.
\<close>

definition NewClipboardManager :: "os_env \<Rightarrow> Config \<Rightarrow> startup_error + ClipboardManager" where
  "NewClipboardManager os config =
     (let new = (\<lambda>logOutput.
            \<lparr>lastWaylandHash = '''', lastX11Hash = '''',
             syncInterval = wrap_int64 (IntervalMs (Sync config) * Millisecond),
             commandTimeout = wrap_int64 (CommandTimeout (Timeouts config) * Second),
             maxClipboardSize = MaxClipboardSize (Timeouts config),
             enableLogging = Verbose (Logging config),
             logWriter = logOutput\<rparr>)
      in if LogFile (Logging config) \<noteq> '''' then
           (let expanded = ExpandEnv os (LogFile (Logging config));
                logPath = (if length expanded > 0 \<and> hd expanded = CHR ''~''
                           then Join os (UserHomeDir os) (tl expanded) else expanded);
                logDir = Dir os logPath
            in if \<not> MkdirAll os logDir then Inl LogDirectoryError
               else if \<not> OpenFile os logPath then Inl LogFileError
               else Inr (new (OpenedFile logPath)))
         else Inr (new Stdout))"

section \<open>The endpoint adapters\<close>

text \<open>
  Each adapter runs one external tool under \<open>context.WithTimeout\<close>. \<open>cmd.Run()\<close>
  either succeeds (a read then has the tool's standard output) or returns an error,
  which is the deadline or anything else. The outcome of a run is an input of the
  model; what the adapter does with it is the code. An \<open>Invoke\<close> in the trace
  records that \<open>cmd.Run()\<close> was called: when the command timeout is not positive
  the context has already expired, and the call returns the deadline error without
  starting the tool.
\<close>

datatype run_error = DeadlineExceeded | OtherFailure

datatype invocation = WlPaste | WlCopy string | XclipOut | XclipIn string

datatype log_line =
    WlPasteTimeout | WaylandExceedsLimit nat int | SkipWaylandSync nat int
  | WlCopyTimeout | WlCopyFailed
  | XclipReadTimeout | X11ExceedsLimit nat int | SkipX11Sync nat int
  | XclipWriteTimeout | XclipWriteFailed
  | WaylandToVmware nat | VmwareToWayland nat | ErrorSyncingX11 | ErrorSyncingWayland
  | SyncError
  | SyncStarted | SyncStopped | LogCloseFailed

datatype effect = Invoke invocation | Logged log_line

definition logf :: "ClipboardManager \<Rightarrow> log_line \<Rightarrow> effect list" where
  "logf cm line = (if enableLogging cm then [Logged line] else [])"

text \<open>A Go \<open>error\<close> result; every adapter returns \<open>nil\<close>, which is \<open>None\<close>.\<close>

type_synonym go_error = "string option"

definition getWaylandClipboard ::
  "ClipboardManager \<Rightarrow> run_error + string \<Rightarrow> (string \<times> go_error) \<times> effect list" where
  "getWaylandClipboard cm run =
     (case run of
        Inl err \<Rightarrow>
          (('''', None),
           Invoke WlPaste # (if err = DeadlineExceeded then logf cm WlPasteTimeout else []))
      | Inr content \<Rightarrow>
          if int (length content) > maxClipboardSize cm
          then (('''', None),
                Invoke WlPaste # logf cm (WaylandExceedsLimit (length content) (maxClipboardSize cm)))
          else ((content, None), [Invoke WlPaste]))"

definition setWaylandClipboard ::
  "ClipboardManager \<Rightarrow> string \<Rightarrow> run_error option \<Rightarrow> go_error \<times> effect list" where
  "setWaylandClipboard cm content run =
     (if int (length content) > maxClipboardSize cm
      then (None, logf cm (SkipWaylandSync (length content) (maxClipboardSize cm)))
      else (case run of
              Some err \<Rightarrow>
                (None, Invoke (WlCopy content) #
                   (if err = DeadlineExceeded then logf cm WlCopyTimeout else logf cm WlCopyFailed))
            | None \<Rightarrow> (None, [Invoke (WlCopy content)])))"

definition getX11Clipboard ::
  "ClipboardManager \<Rightarrow> run_error + string \<Rightarrow> (string \<times> go_error) \<times> effect list" where
  "getX11Clipboard cm run =
     (case run of
        Inl err \<Rightarrow>
          (('''', None),
           Invoke XclipOut # (if err = DeadlineExceeded then logf cm XclipReadTimeout else []))
      | Inr content \<Rightarrow>
          if int (length content) > maxClipboardSize cm
          then (('''', None),
                Invoke XclipOut # logf cm (X11ExceedsLimit (length content) (maxClipboardSize cm)))
          else ((content, None), [Invoke XclipOut]))"

definition setX11Clipboard ::
  "ClipboardManager \<Rightarrow> string \<Rightarrow> run_error option \<Rightarrow> go_error \<times> effect list" where
  "setX11Clipboard cm content run =
     (if int (length content) > maxClipboardSize cm
      then (None, logf cm (SkipX11Sync (length content) (maxClipboardSize cm)))
      else (case run of
              Some err \<Rightarrow>
                (None, Invoke (XclipIn content) #
                   (if err = DeadlineExceeded then logf cm XclipWriteTimeout else logf cm XclipWriteFailed))
            | None \<Rightarrow> (None, [Invoke (XclipIn content)])))"

section \<open>One sync cycle\<close>

text \<open>The outcomes of the four tool runs a cycle may make.\<close>

record cycle_env =
  wl_paste :: "run_error + string"
  xclip_out :: "run_error + string"
  xclip_in :: "run_error option"
  wl_copy :: "run_error option"

text \<open>
  \<open>syncClipboards\<close> (line 198), statement by statement. The local \<open>x11Hash\<close> and
  \<open>waylandHash\<close> are reassigned in the branches, so each branch returns the
  manager, the hash and its effects.
\<close>

definition syncClipboards ::
  "ClipboardManager \<Rightarrow> cycle_env \<Rightarrow> (go_error \<times> ClipboardManager) \<times> effect list" where
  "syncClipboards cm env =
     (let ((waylandContent, _), fx1) = getWaylandClipboard cm (wl_paste env);
          ((x11Content, _), fx2) = getX11Clipboard cm (xclip_out env);
          waylandHash = hash waylandContent;
          x11Hash = hash x11Content;
          (cm1, x11Hash1, fx3) =
            (if waylandHash \<noteq> lastWaylandHash cm \<and> waylandContent \<noteq> '''' then
               (let (cm', x11Hash', fx) =
                  (if waylandHash \<noteq> x11Hash then
                     (let (err, fxw) = setX11Clipboard cm waylandContent (xclip_in env)
                      in (cm\<lparr>lastX11Hash := waylandHash\<rparr>, waylandHash,
                          logf cm (WaylandToVmware (length waylandContent)) @ fxw @
                          (case err of Some _ \<Rightarrow> logf cm ErrorSyncingX11 | None \<Rightarrow> [])))
                   else (cm, x11Hash, []))
                in (cm'\<lparr>lastWaylandHash := waylandHash\<rparr>, x11Hash', fx))
             else (cm, x11Hash, []));
          (cm2, waylandHash2, fx4) =
            (if x11Hash1 \<noteq> lastX11Hash cm1 \<and> x11Content \<noteq> '''' then
               (let (cm', waylandHash', fx) =
                  (if x11Hash1 \<noteq> waylandHash then
                     (let (err, fxw) = setWaylandClipboard cm1 x11Content (wl_copy env)
                      in (cm1\<lparr>lastWaylandHash := x11Hash1\<rparr>, x11Hash1,
                          logf cm1 (VmwareToWayland (length x11Content)) @ fxw @
                          (case err of Some _ \<Rightarrow> logf cm1 ErrorSyncingWayland | None \<Rightarrow> [])))
                   else (cm1, waylandHash, []))
                in (cm'\<lparr>lastX11Hash := x11Hash1\<rparr>, waylandHash', fx))
             else (cm1, waylandHash, []))
      in ((None, cm2), fx1 @ fx2 @ fx3 @ fx4))"

section \<open>The loop and the process\<close>











section \<open>The two clipboards\<close>

text \<open>
  To speak about what an endpoint holds after a cycle: the contents of the two
  clipboards, what the adapters hand to the engine in a cycle, and the effect of
  a cycle's write invocations, each of which changes its clipboard when its run
  succeeds and leaves it alone when it fails.
\<close>

record endpoints =
  wayland_clip :: string
  x11_clip :: string

definition observed :: "ClipboardManager \<Rightarrow> cycle_env \<Rightarrow> endpoints" where
  "observed cm env =
     \<lparr>wayland_clip = fst (fst (getWaylandClipboard cm (wl_paste env))),
      x11_clip = fst (fst (getX11Clipboard cm (xclip_out env)))\<rparr>"

fun invocations :: "effect list \<Rightarrow> invocation list" where
  "invocations [] = []"
| "invocations (Invoke i # fx) = i # invocations fx"
| "invocations (Logged l # fx) = invocations fx"

fun is_write :: "invocation \<Rightarrow> bool" where
  "is_write (WlCopy c) = True"
| "is_write (XclipIn c) = True"
| "is_write _ = False"

definition writes :: "effect list \<Rightarrow> invocation list" where
  "writes fx = filter is_write (invocations fx)"

fun run_fails :: "cycle_env \<Rightarrow> invocation \<Rightarrow> bool" where
  "run_fails env (XclipIn c) = (xclip_in env \<noteq> None)"
| "run_fails env (WlCopy c) = (wl_copy env \<noteq> None)"
| "run_fails env WlPaste = (case wl_paste env of Inl e \<Rightarrow> True | Inr c \<Rightarrow> False)"
| "run_fails env XclipOut = (case xclip_out env of Inl e \<Rightarrow> True | Inr c \<Rightarrow> False)"

fun deliver :: "cycle_env \<Rightarrow> endpoints \<Rightarrow> invocation \<Rightarrow> endpoints" where
  "deliver env w (XclipIn c) = (if run_fails env (XclipIn c) then w else w\<lparr>x11_clip := c\<rparr>)"
| "deliver env w (WlCopy c) = (if run_fails env (WlCopy c) then w else w\<lparr>wayland_clip := c\<rparr>)"
| "deliver env w _ = w"

definition endpoints_after :: "cycle_env \<Rightarrow> effect list \<Rightarrow> endpoints \<Rightarrow> endpoints" where
  "endpoints_after env fx w = foldl (deliver env) w (invocations fx)"

text \<open>The manager and the effects of one cycle.\<close>

abbreviation next_cm :: "ClipboardManager \<Rightarrow> cycle_env \<Rightarrow> ClipboardManager" where
  "next_cm cm env \<equiv> snd (fst (syncClipboards cm env))"

abbreviation cycle_fx :: "ClipboardManager \<Rightarrow> cycle_env \<Rightarrow> effect list" where
  "cycle_fx cm env \<equiv> snd (syncClipboards cm env)"

section \<open>Example data\<close>

text \<open>A manager with given fingerprints and size limit, the other fields as the
  built-in defaults give them, logging to standard output.\<close>

definition manager_with :: "string \<Rightarrow> string \<Rightarrow> int \<Rightarrow> ClipboardManager" where
  "manager_with lw lx limit =
     \<lparr>lastWaylandHash = lw, lastX11Hash = lx, syncInterval = 500000000,
      commandTimeout = 2000000000, maxClipboardSize = limit, enableLogging = True,
      logWriter = Stdout\<rparr>"

text \<open>A startup environment in which every tool is found, no configuration file
  exists and the log directory cannot be created.\<close>

definition readonly_home :: os_env where
  "readonly_home =
     \<lparr>LookPath = (\<lambda>tool. True), UserHomeDir = ''/home/u'', ExpandEnv = (\<lambda>s. s),
      Join = (\<lambda>a b. a @ ''/'' @ b),
      Dir = (\<lambda>path. ''/home/u/.local/share/vmware-sway-sync''),
      MkdirAll = (\<lambda>dir. False), OpenFile = (\<lambda>path. False), Stat = (\<lambda>path. False),
      DecodeFile = (\<lambda>path. Inl ConfigParseError)\<rparr>"


text \<open>The configuration of the README, logging to standard output.\<close>

definition stdout_config :: Config where
  "stdout_config =
     \<lparr>Timeouts = \<lparr>CommandTimeout = 2, MaxClipboardSize = 52428800\<rparr>,
      Sync = \<lparr>IntervalMs = 500, EnableLogging = True\<rparr>,
      Logging = \<lparr>Verbose = True, LogFile = ''''\<rparr>\<rparr>"

section \<open>What the adapters and a cycle do\<close>

lemma invocations_append: "invocations (a @ b) = invocations a @ invocations b"
  by (induction a rule: invocations.induct) simp_all

lemma invocations_logf: "invocations (logf cm l) = []"
  by (simp add: logf_def)

lemma getWayland_result:
  "fst (getWaylandClipboard cm r) =
     ((case r of Inl e \<Rightarrow> '''' | Inr c \<Rightarrow> if int (length c) > maxClipboardSize cm then '''' else c), None)"
  by (simp add: getWaylandClipboard_def split: sum.splits)

lemma getX11_result:
  "fst (getX11Clipboard cm r) =
     ((case r of Inl e \<Rightarrow> '''' | Inr c \<Rightarrow> if int (length c) > maxClipboardSize cm then '''' else c), None)"
  by (simp add: getX11Clipboard_def split: sum.splits)

lemma getWayland_invocations: "invocations (snd (getWaylandClipboard cm r)) = [WlPaste]"
  by (simp add: getWaylandClipboard_def invocations_logf split: sum.splits)

lemma getX11_invocations: "invocations (snd (getX11Clipboard cm r)) = [XclipOut]"
  by (simp add: getX11Clipboard_def invocations_logf split: sum.splits)

lemma setX11_result: "fst (setX11Clipboard cm c r) = None"
  by (simp add: setX11Clipboard_def split: option.splits)

lemma setWayland_result: "fst (setWaylandClipboard cm c r) = None"
  by (simp add: setWaylandClipboard_def split: option.splits)

lemma setX11_invocations:
  "invocations (snd (setX11Clipboard cm c r)) =
     (if int (length c) > maxClipboardSize cm then [] else [XclipIn c])"
  by (simp add: setX11Clipboard_def invocations_logf split: option.splits)

lemma setWayland_invocations:
  "invocations (snd (setWaylandClipboard cm c r)) =
     (if int (length c) > maxClipboardSize cm then [] else [WlCopy c])"
  by (simp add: setWaylandClipboard_def invocations_logf split: option.splits)

lemma observed_bounded:
  "wayland_clip (observed cm env) = '''' \<or> int (length (wayland_clip (observed cm env))) \<le> maxClipboardSize cm"
  "x11_clip (observed cm env) = '''' \<or> int (length (x11_clip (observed cm env))) \<le> maxClipboardSize cm"
  by (auto simp: observed_def getWayland_result getX11_result split: sum.splits)

lemma set_eqs:
  "setX11Clipboard cm c r = (None, snd (setX11Clipboard cm c r))"
  "setWaylandClipboard cm c r = (None, snd (setWaylandClipboard cm c r))"
  by (simp_all add: prod_eq_iff setX11_result setWayland_result)

lemma set_upd:
  "setWaylandClipboard (cm\<lparr>lastWaylandHash := h\<rparr>) c r = setWaylandClipboard cm c r"
  "logf (cm\<lparr>lastWaylandHash := h\<rparr>) l = logf cm l"
  by (simp_all add: setWaylandClipboard_def logf_def split: option.splits)

lemma sync_aux:
  assumes g1: "getWaylandClipboard cm (wl_paste env) = ((W, None), fx1)"
      and g2: "getX11Clipboard cm (xclip_out env) = ((X, None), fx2)"
  shows "syncClipboards cm env =
     (if hash W \<noteq> lastWaylandHash cm \<and> W \<noteq> '''' then
           if hash W \<noteq> hash X then
             ((None, cm\<lparr>lastX11Hash := hash W, lastWaylandHash := hash W\<rparr>),
              fx1 @ fx2 @ logf cm (WaylandToVmware (length W)) @ snd (setX11Clipboard cm W (xclip_in env)))
           else if hash X \<noteq> lastX11Hash cm \<and> X \<noteq> '''' then
             ((None, cm\<lparr>lastWaylandHash := hash W, lastX11Hash := hash X\<rparr>), fx1 @ fx2)
           else ((None, cm\<lparr>lastWaylandHash := hash W\<rparr>), fx1 @ fx2)
         else if hash X \<noteq> lastX11Hash cm \<and> X \<noteq> '''' then
           if hash X \<noteq> hash W then
             ((None, cm\<lparr>lastWaylandHash := hash X, lastX11Hash := hash X\<rparr>),
              fx1 @ fx2 @ logf cm (VmwareToWayland (length X)) @ snd (setWaylandClipboard cm X (wl_copy env)))
           else ((None, cm\<lparr>lastX11Hash := hash X\<rparr>), fx1 @ fx2)
         else ((None, cm), fx1 @ fx2))"
  unfolding syncClipboards_def g1 g2
  apply (simp only: Let_def split_conv fst_conv snd_conv)
  apply (subst set_eqs(1), subst set_eqs(2))
  apply (simp add: set_upd)
  done

lemma sync_char:
  "syncClipboards cm env =
     (let W = wayland_clip (observed cm env); X = x11_clip (observed cm env);
          fx1 = snd (getWaylandClipboard cm (wl_paste env));
          fx2 = snd (getX11Clipboard cm (xclip_out env))
      in if hash W \<noteq> lastWaylandHash cm \<and> W \<noteq> '''' then
           if hash W \<noteq> hash X then
             ((None, cm\<lparr>lastX11Hash := hash W, lastWaylandHash := hash W\<rparr>),
              fx1 @ fx2 @ logf cm (WaylandToVmware (length W)) @ snd (setX11Clipboard cm W (xclip_in env)))
           else if hash X \<noteq> lastX11Hash cm \<and> X \<noteq> '''' then
             ((None, cm\<lparr>lastWaylandHash := hash W, lastX11Hash := hash X\<rparr>), fx1 @ fx2)
           else ((None, cm\<lparr>lastWaylandHash := hash W\<rparr>), fx1 @ fx2)
         else if hash X \<noteq> lastX11Hash cm \<and> X \<noteq> '''' then
           if hash X \<noteq> hash W then
             ((None, cm\<lparr>lastWaylandHash := hash X, lastX11Hash := hash X\<rparr>),
              fx1 @ fx2 @ logf cm (VmwareToWayland (length X)) @ snd (setWaylandClipboard cm X (wl_copy env)))
           else ((None, cm\<lparr>lastX11Hash := hash X\<rparr>), fx1 @ fx2)
         else ((None, cm), fx1 @ fx2))"
proof -
  have g1: "getWaylandClipboard cm (wl_paste env) =
      ((wayland_clip (observed cm env), None), snd (getWaylandClipboard cm (wl_paste env)))"
    by (simp add: prod_eq_iff observed_def getWayland_result)
  have g2: "getX11Clipboard cm (xclip_out env) =
      ((x11_clip (observed cm env), None), snd (getX11Clipboard cm (xclip_out env)))"
    by (simp add: prod_eq_iff observed_def getX11_result)
  show ?thesis
    unfolding Let_def by (rule sync_aux [OF g1 g2])
qed

lemma sync_invocations:
  "invocations (cycle_fx cm env) =
     (let W = wayland_clip (observed cm env); X = x11_clip (observed cm env)
      in [WlPaste, XclipOut] @
         (if hash W \<noteq> lastWaylandHash cm \<and> W \<noteq> '''' \<and> hash W \<noteq> hash X then [XclipIn W]
          else if \<not> (hash W \<noteq> lastWaylandHash cm \<and> W \<noteq> '''') \<and>
                  hash X \<noteq> lastX11Hash cm \<and> X \<noteq> '''' \<and> hash X \<noteq> hash W then [WlCopy X]
          else []))"
proof -
  have sx: "invocations (snd (setX11Clipboard cm (wayland_clip (observed cm env)) r)) =
      [XclipIn (wayland_clip (observed cm env))]" if "wayland_clip (observed cm env) \<noteq> []" for r
    using that observed_bounded(1) [of cm env] by (simp add: setX11_invocations)
  have sw: "invocations (snd (setWaylandClipboard cm (x11_clip (observed cm env)) r)) =
      [WlCopy (x11_clip (observed cm env))]" if "x11_clip (observed cm env) \<noteq> []" for r
    using that observed_bounded(2) [of cm env] by (simp add: setWayland_invocations)
  show ?thesis
    by (simp add: sync_char Let_def invocations_append invocations_logf
        getWayland_invocations getX11_invocations sx sw)
qed

lemma sync_state:
  "next_cm cm env =
     (let W = wayland_clip (observed cm env); X = x11_clip (observed cm env)
      in if hash W \<noteq> lastWaylandHash cm \<and> W \<noteq> '''' then
           if hash W \<noteq> hash X then cm\<lparr>lastX11Hash := hash W, lastWaylandHash := hash W\<rparr>
           else if hash X \<noteq> lastX11Hash cm \<and> X \<noteq> '''' then
             cm\<lparr>lastWaylandHash := hash W, lastX11Hash := hash X\<rparr>
           else cm\<lparr>lastWaylandHash := hash W\<rparr>
         else if hash X \<noteq> lastX11Hash cm \<and> X \<noteq> '''' then
           if hash X \<noteq> hash W then cm\<lparr>lastWaylandHash := hash X, lastX11Hash := hash X\<rparr>
           else cm\<lparr>lastX11Hash := hash X\<rparr>
         else cm)"
  by (simp add: sync_char Let_def)

lemma sync_error: "fst (fst (syncClipboards cm env)) = None"
  by (simp add: sync_char Let_def)

lemma sync_max: "maxClipboardSize (next_cm cm env) = maxClipboardSize cm"
  by (simp add: sync_state Let_def)

lemma observed_cong: "maxClipboardSize cm' = maxClipboardSize cm \<Longrightarrow> observed cm' e = observed cm e"
  by (simp add: observed_def getWayland_result getX11_result split: sum.splits)

lemma observed_next: "observed (next_cm cm e1) e2 = observed cm e2"
  by (rule observed_cong) (rule sync_max)

lemma writes_sync:
  "writes (cycle_fx cm env) =
     (let W = wayland_clip (observed cm env); X = x11_clip (observed cm env)
      in if hash W \<noteq> lastWaylandHash cm \<and> W \<noteq> '''' \<and> hash W \<noteq> hash X then [XclipIn W]
         else if \<not> (hash W \<noteq> lastWaylandHash cm \<and> W \<noteq> '''') \<and>
                 hash X \<noteq> lastX11Hash cm \<and> X \<noteq> '''' \<and> hash X \<noteq> hash W then [WlCopy X]
         else [])"
  by (simp add: writes_def sync_invocations Let_def)

lemma settled_cycle:
  assumes "wayland_clip (observed cm env) \<noteq> '''' \<longrightarrow>
             lastWaylandHash cm = hash (wayland_clip (observed cm env))"
    and "x11_clip (observed cm env) \<noteq> '''' \<longrightarrow>
             lastX11Hash cm = hash (x11_clip (observed cm env))"
  shows "writes (cycle_fx cm env) = [] \<and> next_cm cm env = cm"
proof -
  have a: "\<not> (hash (wayland_clip (observed cm env)) \<noteq> lastWaylandHash cm \<and>
              wayland_clip (observed cm env) \<noteq> '''')"
    using assms(1) by (cases "wayland_clip (observed cm env) = []") simp_all
  have b: "\<not> (hash (x11_clip (observed cm env)) \<noteq> lastX11Hash cm \<and>
              x11_clip (observed cm env) \<noteq> '''')"
    using assms(2) by (cases "x11_clip (observed cm env) = []") simp_all
  have a3: "\<not> (hash (wayland_clip (observed cm env)) \<noteq> lastWaylandHash cm \<and>
              wayland_clip (observed cm env) \<noteq> [] \<and> P)" for P
    using a by blast
  have b3: "\<not> (hash (x11_clip (observed cm env)) \<noteq> lastX11Hash cm \<and>
              x11_clip (observed cm env) \<noteq> [] \<and> P)" for P
    using b by blast
  have "writes (cycle_fx cm env) = []"
    unfolding writes_sync Let_def by (simp only: a3 b3 simp_thms if_False)
  moreover have "next_cm cm env = cm"
    unfolding sync_state Let_def by (simp only: a b if_False)
  ultimately show ?thesis by blast
qed


section \<open>Facts about the digest\<close>

declare blocks256.simps [simp del]

lemma length_round256: "length (round256 st kw) = length st"
  by (induction st kw rule: round256.induct) (simp_all add: Let_def)

lemma length_foldl_round256: "length (foldl round256 st kws) = length st"
  by (induction kws arbitrary: st) (simp_all add: length_round256)

lemma length_block256: "length (block256 h chunk) = length h"
  by (simp add: block256_def length_foldl_round256)

lemma length_blocks256: "length (blocks256 h p) = length h"
proof (induction h p rule: blocks256.induct)
  case (1 h p)
  then show ?case
    by (subst blocks256.simps) (simp add: length_block256)
qed

lemma length_be_bytes: "length (be_bytes n x) = n"
  by (simp add: be_bytes_def)

lemma length_concat_be_bytes: "length (concat (map (be_bytes n) xs)) = n * length xs"
  by (induction xs) (simp_all add: length_be_bytes)

lemma length_Sum256: "length (Sum256 data) = 32"
  by (simp add: Sum256_def length_concat_be_bytes length_blocks256 init256_def)

lemma length_Sprintf_x: "length (Sprintf_x bs) = 2 * length bs"
  by (induction bs) (simp_all add: Sprintf_x_def)

lemma length_hash: "length (hash content) = 64"
  by (simp add: hash_def length_Sprintf_x length_Sum256)

lemma hash_not_empty: "hash content \<noteq> ''''"
  using length_hash [of content] by auto

lemma hash_empty:
  "hash '''' = ''e3b0c44298fc1c149afbf4c8996fb92427ae41e4649b934ca495991b7852b855''"
  by code_simp

lemma hash_foo:
  "hash ''foo'' = ''2c26b46b68ffc68ff99b453c1d30413413422d706483bfa0f98a5e886266e7ae''"
  by code_simp

lemma hash_bar:
  "hash ''bar'' = ''fcde2b2edba56bf408601fb721fe9b5c338d10ee429ea04fae5511b68fbf8fb9''"
  by code_simp

lemma manager_with_simps:
  "lastWaylandHash (manager_with lw lx limit) = lw"
  "lastX11Hash (manager_with lw lx limit) = lx"
  "maxClipboardSize (manager_with lw lx limit) = limit"
  by (simp_all add: manager_with_def)

lemma observed_reads:
  "int (length w) \<le> maxClipboardSize cm \<Longrightarrow> int (length x) \<le> maxClipboardSize cm \<Longrightarrow>
   wl_paste env = Inr w \<Longrightarrow> xclip_out env = Inr x \<Longrightarrow>
   observed cm env = \<lparr>wayland_clip = w, x11_clip = x\<rparr>"
  by (simp add: observed_def getWayland_result getX11_result)

section \<open>The claims\<close>

text \<open>
  C1, no echo. For all contents \<open>A \<noteq> B\<close>: after a cycle in which the adapters
  return Wayland = \<open>A\<close> and X11 = \<open>B\<close> and which copies \<open>A\<close> to the X11 side, a
  following cycle in which both adapters return \<open>A\<close> invokes no write to the
  Wayland side; it invokes no write at all.
\<close>

theorem no_echo:
  assumes "A \<noteq> B"
    and "observed cm e1 = \<lparr>wayland_clip = A, x11_clip = B\<rparr>"
    and "XclipIn A \<in> set (invocations (cycle_fx cm e1))"
    and "observed (next_cm cm e1) e2 = \<lparr>wayland_clip = A, x11_clip = A\<rparr>"
  shows "(\<forall>c. WlCopy c \<notin> set (invocations (cycle_fx (next_cm cm e1) e2))) \<and>
         writes (cycle_fx (next_cm cm e1) e2) = []"
proof -
  from assms(2,3) have st: "lastWaylandHash (next_cm cm e1) = hash A"
      "lastX11Hash (next_cm cm e1) = hash A"
    by (auto simp: sync_invocations sync_state Let_def split: if_splits)
  show ?thesis
    using assms(4) st by (simp add: sync_invocations writes_sync Let_def)
qed

theorem no_echo_witness:
  "''foo'' \<noteq> ''bar'' \<and>
   observed (manager_with '''' '''' 100)
     \<lparr>wl_paste = Inr ''foo'', xclip_out = Inr ''bar'', xclip_in = None, wl_copy = None\<rparr> =
     \<lparr>wayland_clip = ''foo'', x11_clip = ''bar''\<rparr> \<and>
   XclipIn ''foo'' \<in> set (invocations (cycle_fx (manager_with '''' '''' 100)
     \<lparr>wl_paste = Inr ''foo'', xclip_out = Inr ''bar'', xclip_in = None, wl_copy = None\<rparr>)) \<and>
   writes (cycle_fx
     (next_cm (manager_with '''' '''' 100)
        \<lparr>wl_paste = Inr ''foo'', xclip_out = Inr ''bar'', xclip_in = None, wl_copy = None\<rparr>)
     \<lparr>wl_paste = Inr ''foo'', xclip_out = Inr ''foo'', xclip_in = None, wl_copy = None\<rparr>) = []"
proof -
  let ?cm = "manager_with '''' '''' 100"
  let ?e1 = "\<lparr>wl_paste = Inr ''foo'', xclip_out = Inr ''bar'', xclip_in = None, wl_copy = None\<rparr>"
  let ?e2 = "\<lparr>wl_paste = Inr ''foo'', xclip_out = Inr ''foo'', xclip_in = None, wl_copy = None\<rparr>"
  have h1: "''foo'' \<noteq> ''bar''"
    by simp
  have h2: "observed ?cm ?e1 = \<lparr>wayland_clip = ''foo'', x11_clip = ''bar''\<rparr>"
    by (rule observed_reads) (simp_all add: manager_with_simps)
  have h3: "XclipIn ''foo'' \<in> set (invocations (cycle_fx ?cm ?e1))"
    by (simp add: sync_invocations Let_def h2 manager_with_simps hash_not_empty hash_foo hash_bar)
  have h4: "observed (next_cm ?cm ?e1) ?e2 = \<lparr>wayland_clip = ''foo'', x11_clip = ''foo''\<rparr>"
    unfolding observed_next by (rule observed_reads) (simp_all add: manager_with_simps)
  from no_echo [OF h1 h2 h3 h4] h1 h2 h3 show ?thesis
    by blast
qed

text \<open>
  C2, idempotence, as the claim states it: two consecutive cycles, the second one's
  adapters returning what the endpoints hold after the first, for every manager
  state; then the second cycle writes nothing and keeps both fingerprints. It fails
  when the first cycle's write run fails: the fingerprints were advanced all the
  same, the X11 clipboard still holds its old content, and the second cycle takes
  that content for a change on the X11 side and copies it to Wayland. Here the
  fresh manager reads \<open>foo\<close> and \<open>bar\<close>, \<open>xclip -i\<close> times out, and the next cycle
  reads \<open>foo\<close> and \<open>bar\<close> again.
\<close>

theorem idempotence_counterexample:
  "observed
     (next_cm (manager_with '''' '''' 100)
        \<lparr>wl_paste = Inr ''foo'', xclip_out = Inr ''bar'',
         xclip_in = Some DeadlineExceeded, wl_copy = None\<rparr>)
     \<lparr>wl_paste = Inr ''foo'', xclip_out = Inr ''bar'', xclip_in = None, wl_copy = None\<rparr> =
   endpoints_after
     \<lparr>wl_paste = Inr ''foo'', xclip_out = Inr ''bar'',
      xclip_in = Some DeadlineExceeded, wl_copy = None\<rparr>
     (cycle_fx (manager_with '''' '''' 100)
        \<lparr>wl_paste = Inr ''foo'', xclip_out = Inr ''bar'',
         xclip_in = Some DeadlineExceeded, wl_copy = None\<rparr>)
     (observed (manager_with '''' '''' 100)
        \<lparr>wl_paste = Inr ''foo'', xclip_out = Inr ''bar'',
         xclip_in = Some DeadlineExceeded, wl_copy = None\<rparr>) \<and>
   writes (cycle_fx
     (next_cm (manager_with '''' '''' 100)
        \<lparr>wl_paste = Inr ''foo'', xclip_out = Inr ''bar'',
         xclip_in = Some DeadlineExceeded, wl_copy = None\<rparr>)
     \<lparr>wl_paste = Inr ''foo'', xclip_out = Inr ''bar'', xclip_in = None, wl_copy = None\<rparr>) =
     [WlCopy ''bar''] \<and>
   lastWaylandHash
     (next_cm
        (next_cm (manager_with '''' '''' 100)
           \<lparr>wl_paste = Inr ''foo'', xclip_out = Inr ''bar'',
            xclip_in = Some DeadlineExceeded, wl_copy = None\<rparr>)
        \<lparr>wl_paste = Inr ''foo'', xclip_out = Inr ''bar'', xclip_in = None, wl_copy = None\<rparr>) \<noteq>
   lastWaylandHash
     (next_cm (manager_with '''' '''' 100)
        \<lparr>wl_paste = Inr ''foo'', xclip_out = Inr ''bar'',
         xclip_in = Some DeadlineExceeded, wl_copy = None\<rparr>)"
proof -
  let ?cm = "manager_with '''' '''' 100"
  let ?e1 = "\<lparr>wl_paste = Inr ''foo'', xclip_out = Inr ''bar'',
              xclip_in = Some DeadlineExceeded, wl_copy = None\<rparr>"
  let ?e2 = "\<lparr>wl_paste = Inr ''foo'', xclip_out = Inr ''bar'', xclip_in = None, wl_copy = None\<rparr>"
  have o1: "observed ?cm ?e1 = \<lparr>wayland_clip = ''foo'', x11_clip = ''bar''\<rparr>"
    by (rule observed_reads) (simp_all add: manager_with_simps)
  have o2: "observed (next_cm ?cm ?e1) ?e2 = \<lparr>wayland_clip = ''foo'', x11_clip = ''bar''\<rparr>"
    unfolding observed_next by (rule observed_reads) (simp_all add: manager_with_simps)
  have i1: "invocations (cycle_fx ?cm ?e1) = [WlPaste, XclipOut, XclipIn ''foo'']"
    by (simp add: sync_invocations Let_def o1 manager_with_simps hash_not_empty hash_foo hash_bar)
  have s1: "lastWaylandHash (next_cm ?cm ?e1) = hash ''foo''"
      "lastX11Hash (next_cm ?cm ?e1) = hash ''foo''"
    by (simp_all add: sync_state Let_def o1 manager_with_simps hash_not_empty hash_foo hash_bar)
  have a: "observed (next_cm ?cm ?e1) ?e2 = endpoints_after ?e1 (cycle_fx ?cm ?e1) (observed ?cm ?e1)"
    by (simp add: o2 o1 i1 endpoints_after_def)
  have b: "writes (cycle_fx (next_cm ?cm ?e1) ?e2) = [WlCopy ''bar'']"
    by (simp add: writes_sync Let_def o2 s1 hash_foo hash_bar)
  have c: "lastWaylandHash (next_cm (next_cm ?cm ?e1) ?e2) = hash ''bar''"
    by (simp add: sync_state [of "next_cm ?cm ?e1"] Let_def o2 s1 hash_foo hash_bar)
  from a b c s1 show ?thesis
    by (simp add: hash_foo hash_bar)
qed

text \<open>
  The claim also needs the two cycles to read alike. Here both reads of the first
  cycle time out, so it invokes no write and changes nothing; the endpoints hold
  \<open>foo\<close> and \<open>bar\<close> throughout, the second cycle reads them and writes \<open>foo\<close> to
  X11.
\<close>

lemma idempotence_needs_steady_reads:
  "writes (cycle_fx (manager_with '''' '''' 100)
     \<lparr>wl_paste = Inl DeadlineExceeded, xclip_out = Inl DeadlineExceeded,
      xclip_in = None, wl_copy = None\<rparr>) = [] \<and>
   next_cm (manager_with '''' '''' 100)
     \<lparr>wl_paste = Inl DeadlineExceeded, xclip_out = Inl DeadlineExceeded,
      xclip_in = None, wl_copy = None\<rparr> = manager_with '''' '''' 100 \<and>
   writes (cycle_fx
     (next_cm (manager_with '''' '''' 100)
        \<lparr>wl_paste = Inl DeadlineExceeded, xclip_out = Inl DeadlineExceeded,
         xclip_in = None, wl_copy = None\<rparr>)
     \<lparr>wl_paste = Inr ''foo'', xclip_out = Inr ''bar'', xclip_in = None, wl_copy = None\<rparr>) =
     [XclipIn ''foo'']"
proof -
  let ?cm = "manager_with '''' '''' 100"
  let ?e1 = "\<lparr>wl_paste = Inl DeadlineExceeded, xclip_out = Inl DeadlineExceeded,
              xclip_in = None, wl_copy = None\<rparr>"
  let ?e2 = "\<lparr>wl_paste = Inr ''foo'', xclip_out = Inr ''bar'', xclip_in = None, wl_copy = None\<rparr>"
  have o1: "observed ?cm ?e1 = \<lparr>wayland_clip = '''', x11_clip = ''''\<rparr>"
    by (simp add: observed_def getWayland_result getX11_result)
  have o2: "observed ?cm ?e2 = \<lparr>wayland_clip = ''foo'', x11_clip = ''bar''\<rparr>"
    by (rule observed_reads) (simp_all add: manager_with_simps)
  have a: "writes (cycle_fx ?cm ?e1) = []" and b: "next_cm ?cm ?e1 = ?cm"
    by (simp_all add: writes_sync sync_state Let_def o1)
  have c: "writes (cycle_fx ?cm ?e2) = [XclipIn ''foo'']"
    by (simp add: writes_sync Let_def o2 manager_with_simps hash_not_empty hash_foo hash_bar)
  from a b c show ?thesis
    by simp
qed

text \<open>
  C2 as amended: given two consecutive cycles in which the second cycle's reads
  return what the first cycle's reads returned, except that a side the first cycle
  wrote to returns the written content, and in which every write the first cycle
  invoked ran without failing, the second cycle invokes no write and leaves both
  fingerprints as they are.
\<close>

theorem idempotent_when_delivered:
  assumes "\<forall>i \<in> set (writes (cycle_fx cm e1)). \<not> run_fails e1 i"
    and "observed (next_cm cm e1) e2 = endpoints_after e1 (cycle_fx cm e1) (observed cm e1)"
  shows "writes (cycle_fx (next_cm cm e1) e2) = [] \<and>
         lastWaylandHash (next_cm (next_cm cm e1) e2) = lastWaylandHash (next_cm cm e1) \<and>
         lastX11Hash (next_cm (next_cm cm e1) e2) = lastX11Hash (next_cm cm e1)"
proof -
  define W where "W = wayland_clip (observed cm e1)"
  define X where "X = x11_clip (observed cm e1)"
  define cm1 where "cm1 = next_cm cm e1"
  have o1: "observed cm e1 = \<lparr>wayland_clip = W, x11_clip = X\<rparr>"
    by (simp add: W_def X_def)
  have inv1: "invocations (cycle_fx cm e1) =
      [WlPaste, XclipOut] @
         (if hash W \<noteq> lastWaylandHash cm \<and> W \<noteq> '''' \<and> hash W \<noteq> hash X then [XclipIn W]
          else if \<not> (hash W \<noteq> lastWaylandHash cm \<and> W \<noteq> '''') \<and>
                  hash X \<noteq> lastX11Hash cm \<and> X \<noteq> '''' \<and> hash X \<noteq> hash W then [WlCopy X]
          else [])"
    unfolding sync_invocations Let_def W_def X_def ..
  have st1: "cm1 =
      (if hash W \<noteq> lastWaylandHash cm \<and> W \<noteq> '''' then
           if hash W \<noteq> hash X then cm\<lparr>lastX11Hash := hash W, lastWaylandHash := hash W\<rparr>
           else if hash X \<noteq> lastX11Hash cm \<and> X \<noteq> '''' then
             cm\<lparr>lastWaylandHash := hash W, lastX11Hash := hash X\<rparr>
           else cm\<lparr>lastWaylandHash := hash W\<rparr>
         else if hash X \<noteq> lastX11Hash cm \<and> X \<noteq> '''' then
           if hash X \<noteq> hash W then cm\<lparr>lastWaylandHash := hash X, lastX11Hash := hash X\<rparr>
           else cm\<lparr>lastX11Hash := hash X\<rparr>
         else cm)"
    unfolding cm1_def sync_state Let_def W_def X_def ..
  let ?A = "hash W \<noteq> lastWaylandHash cm \<and> W \<noteq> ''''"
  let ?B = "hash X \<noteq> lastX11Hash cm \<and> X \<noteq> ''''"
  have "writes (cycle_fx cm1 e2) = [] \<and> next_cm cm1 e2 = cm1"
  proof (cases "?A \<and> hash W \<noteq> hash X")
    case True
    then have inv: "invocations (cycle_fx cm e1) = [WlPaste, XclipOut, XclipIn W]"
      by (simp add: inv1)
    from True have st: "lastWaylandHash cm1 = hash W" "lastX11Hash cm1 = hash W"
      by (simp_all add: st1)
    have "\<not> run_fails e1 (XclipIn W)"
      using assms(1) inv by (simp add: writes_def)
    then have o2: "observed cm1 e2 = \<lparr>wayland_clip = W, x11_clip = W\<rparr>"
      using assms(2) inv by (simp add: cm1_def endpoints_after_def o1)
    show ?thesis
      by (rule settled_cycle) (simp_all add: o2 st)
  next
    case nA: False
    show ?thesis
    proof (cases "?B \<and> hash X \<noteq> hash W")
      case True
      from nA True have nA': "\<not> ?A"
        by metis
      with True have inv: "invocations (cycle_fx cm e1) = [WlPaste, XclipOut, WlCopy X]"
        by (auto simp: inv1)
      from True nA' have st: "lastWaylandHash cm1 = hash X" "lastX11Hash cm1 = hash X"
        by (auto simp: st1)
      have "\<not> run_fails e1 (WlCopy X)"
        using assms(1) inv by (simp add: writes_def)
      then have o2: "observed cm1 e2 = \<lparr>wayland_clip = X, x11_clip = X\<rparr>"
        using assms(2) inv by (simp add: cm1_def endpoints_after_def o1)
      show ?thesis
        by (rule settled_cycle) (simp_all add: o2 st)
    next
      case nB: False
      from nA nB have inv: "invocations (cycle_fx cm e1) = [WlPaste, XclipOut]"
        unfolding inv1 by (cases "?A"; cases "?B") auto
      have stW: "W \<noteq> '''' \<longrightarrow> lastWaylandHash cm1 = hash W"
        using nA nB unfolding st1 by (cases "?A"; cases "?B") auto
      have stX: "X \<noteq> '''' \<longrightarrow> lastX11Hash cm1 = hash X"
        using nA nB unfolding st1 by (cases "?A"; cases "?B") auto
      have o2: "observed cm1 e2 = \<lparr>wayland_clip = W, x11_clip = X\<rparr>"
        using assms(2) inv by (simp add: cm1_def endpoints_after_def o1)
      show ?thesis
        by (rule settled_cycle) (simp_all add: o2 stW stX)
    qed
  qed
  then show ?thesis
    by (simp add: cm1_def)
qed

theorem idempotent_when_delivered_witness:
  "writes (cycle_fx (manager_with '''' '''' 100)
        \<lparr>wl_paste = Inr ''foo'', xclip_out = Inr ''bar'', xclip_in = None, wl_copy = None\<rparr>) =
     [XclipIn ''foo''] \<and>
   \<not> run_fails
        \<lparr>wl_paste = Inr ''foo'', xclip_out = Inr ''bar'', xclip_in = None, wl_copy = None\<rparr>
        (XclipIn ''foo'') \<and>
   observed
     (next_cm (manager_with '''' '''' 100)
        \<lparr>wl_paste = Inr ''foo'', xclip_out = Inr ''bar'', xclip_in = None, wl_copy = None\<rparr>)
     \<lparr>wl_paste = Inr ''foo'', xclip_out = Inr ''foo'', xclip_in = None, wl_copy = None\<rparr> =
   endpoints_after
     \<lparr>wl_paste = Inr ''foo'', xclip_out = Inr ''bar'', xclip_in = None, wl_copy = None\<rparr>
     (cycle_fx (manager_with '''' '''' 100)
        \<lparr>wl_paste = Inr ''foo'', xclip_out = Inr ''bar'', xclip_in = None, wl_copy = None\<rparr>)
     (observed (manager_with '''' '''' 100)
        \<lparr>wl_paste = Inr ''foo'', xclip_out = Inr ''bar'', xclip_in = None, wl_copy = None\<rparr>) \<and>
   writes (cycle_fx
     (next_cm (manager_with '''' '''' 100)
        \<lparr>wl_paste = Inr ''foo'', xclip_out = Inr ''bar'', xclip_in = None, wl_copy = None\<rparr>)
     \<lparr>wl_paste = Inr ''foo'', xclip_out = Inr ''foo'', xclip_in = None, wl_copy = None\<rparr>) = []"
proof -
  let ?cm = "manager_with '''' '''' 100"
  let ?e1 = "\<lparr>wl_paste = Inr ''foo'', xclip_out = Inr ''bar'', xclip_in = None, wl_copy = None\<rparr>"
  let ?e2 = "\<lparr>wl_paste = Inr ''foo'', xclip_out = Inr ''foo'', xclip_in = None, wl_copy = None\<rparr>"
  have o1: "observed ?cm ?e1 = \<lparr>wayland_clip = ''foo'', x11_clip = ''bar''\<rparr>"
    by (rule observed_reads) (simp_all add: manager_with_simps)
  have o2: "observed (next_cm ?cm ?e1) ?e2 = \<lparr>wayland_clip = ''foo'', x11_clip = ''foo''\<rparr>"
    unfolding observed_next by (rule observed_reads) (simp_all add: manager_with_simps)
  have i1: "invocations (cycle_fx ?cm ?e1) = [WlPaste, XclipOut, XclipIn ''foo'']"
    by (simp add: sync_invocations Let_def o1 manager_with_simps hash_not_empty hash_foo hash_bar)
  have w1: "writes (cycle_fx ?cm ?e1) = [XclipIn ''foo'']"
    by (simp add: writes_def i1)
  have h1: "\<forall>i \<in> set (writes (cycle_fx ?cm ?e1)). \<not> run_fails ?e1 i"
    by (simp add: w1)
  have h2: "observed (next_cm ?cm ?e1) ?e2 = endpoints_after ?e1 (cycle_fx ?cm ?e1) (observed ?cm ?e1)"
    by (simp add: o2 o1 i1 endpoints_after_def)
  have h3: "\<not> run_fails ?e1 (XclipIn ''foo'')"
    by simp
  from idempotent_when_delivered [OF h1 h2] h2 h3 w1 show ?thesis
    by blast
qed

text \<open>The three ways a cycle can go, for evaluating concrete cycles.\<close>

lemma cycle_to_x11:
  assumes "observed cm env = \<lparr>wayland_clip = W, x11_clip = X\<rparr>"
    and "hash W \<noteq> lastWaylandHash cm" and "W \<noteq> ''''" and "hash W \<noteq> hash X"
  shows "invocations (cycle_fx cm env) = [WlPaste, XclipOut, XclipIn W]"
    and "lastWaylandHash (next_cm cm env) = hash W"
    and "lastX11Hash (next_cm cm env) = hash W"
  using assms by (simp_all add: sync_invocations sync_state Let_def)

lemma cycle_to_wayland:
  assumes "observed cm env = \<lparr>wayland_clip = W, x11_clip = X\<rparr>"
    and "hash W = lastWaylandHash cm \<or> W = ''''"
    and "hash X \<noteq> lastX11Hash cm" and "X \<noteq> ''''" and "hash X \<noteq> hash W"
  shows "invocations (cycle_fx cm env) = [WlPaste, XclipOut, WlCopy X]"
    and "lastWaylandHash (next_cm cm env) = hash X"
    and "lastX11Hash (next_cm cm env) = hash X"
  using assms by (auto simp: sync_invocations sync_state Let_def)

lemma cycle_idle:
  assumes "observed cm env = \<lparr>wayland_clip = W, x11_clip = X\<rparr>"
    and "hash W = lastWaylandHash cm \<or> W = ''''"
    and "hash X = lastX11Hash cm \<or> X = ''''"
  shows "invocations (cycle_fx cm env) = [WlPaste, XclipOut]"
    and "next_cm cm env = cm"
  using assms by (auto simp: sync_invocations sync_state Let_def)

lemma observed_failed_reads:
  "wl_paste env = Inl e \<Longrightarrow> xclip_out env = Inl e' \<Longrightarrow>
   observed cm env = \<lparr>wayland_clip = '''', x11_clip = ''''\<rparr>"
  by (simp add: observed_def getWayland_result getX11_result)

text \<open>
  C3, directional tie-break, as the claim states it: from both fingerprints at the
  digest of the empty content, a cycle that reads Wayland = \<open>foo\<close> and X11 = \<open>bar\<close>
  writes \<open>foo\<close> to the X11 side once, writes nothing to Wayland, and so X11 holds
  \<open>foo\<close> after the cycle. The write is invoked, but when \<open>xclip -i\<close> times out the
  X11 clipboard still holds \<open>bar\<close> after the cycle; the adapter returns \<open>nil\<close> and
  the engine goes on. The same happens from the state the constructor builds.
\<close>

theorem tie_break_counterexample:
  "lastWaylandHash (manager_with (hash '''') (hash '''') 100) = hash '''' \<and>
   lastX11Hash (manager_with (hash '''') (hash '''') 100) = hash '''' \<and>
   observed (manager_with (hash '''') (hash '''') 100)
     \<lparr>wl_paste = Inr ''foo'', xclip_out = Inr ''bar'',
      xclip_in = Some DeadlineExceeded, wl_copy = None\<rparr> =
     \<lparr>wayland_clip = ''foo'', x11_clip = ''bar''\<rparr> \<and>
   writes (cycle_fx (manager_with (hash '''') (hash '''') 100)
     \<lparr>wl_paste = Inr ''foo'', xclip_out = Inr ''bar'',
      xclip_in = Some DeadlineExceeded, wl_copy = None\<rparr>) = [XclipIn ''foo''] \<and>
   x11_clip (endpoints_after
     \<lparr>wl_paste = Inr ''foo'', xclip_out = Inr ''bar'',
      xclip_in = Some DeadlineExceeded, wl_copy = None\<rparr>
     (cycle_fx (manager_with (hash '''') (hash '''') 100)
        \<lparr>wl_paste = Inr ''foo'', xclip_out = Inr ''bar'',
         xclip_in = Some DeadlineExceeded, wl_copy = None\<rparr>)
     (observed (manager_with (hash '''') (hash '''') 100)
        \<lparr>wl_paste = Inr ''foo'', xclip_out = Inr ''bar'',
         xclip_in = Some DeadlineExceeded, wl_copy = None\<rparr>)) = ''bar'' \<and>
   x11_clip (endpoints_after
     \<lparr>wl_paste = Inr ''foo'', xclip_out = Inr ''bar'',
      xclip_in = Some DeadlineExceeded, wl_copy = None\<rparr>
     (cycle_fx (manager_with '''' '''' 100)
        \<lparr>wl_paste = Inr ''foo'', xclip_out = Inr ''bar'',
         xclip_in = Some DeadlineExceeded, wl_copy = None\<rparr>)
     (observed (manager_with '''' '''' 100)
        \<lparr>wl_paste = Inr ''foo'', xclip_out = Inr ''bar'',
         xclip_in = Some DeadlineExceeded, wl_copy = None\<rparr>)) = ''bar''"
proof -
  let ?cm = "manager_with (hash '''') (hash '''') 100"
  let ?fresh = "manager_with '''' '''' 100"
  let ?env = "\<lparr>wl_paste = Inr ''foo'', xclip_out = Inr ''bar'',
               xclip_in = Some DeadlineExceeded, wl_copy = None\<rparr>"
  have o: "observed ?cm ?env = \<lparr>wayland_clip = ''foo'', x11_clip = ''bar''\<rparr>"
    by (rule observed_reads) (simp_all add: manager_with_simps)
  have o': "observed ?fresh ?env = \<lparr>wayland_clip = ''foo'', x11_clip = ''bar''\<rparr>"
    by (rule observed_reads) (simp_all add: manager_with_simps)
  have i: "invocations (cycle_fx ?cm ?env) = [WlPaste, XclipOut, XclipIn ''foo'']"
    by (rule cycle_to_x11(1) [OF o])
       (simp_all add: manager_with_simps hash_empty hash_foo hash_bar)
  have i': "invocations (cycle_fx ?fresh ?env) = [WlPaste, XclipOut, XclipIn ''foo'']"
    by (rule cycle_to_x11(1) [OF o'])
       (simp_all add: manager_with_simps hash_not_empty hash_foo hash_bar)
  from o o' i i' show ?thesis
    by (simp add: writes_def endpoints_after_def manager_with_simps)
qed

text \<open>
  C3 as amended: from every manager whose Wayland fingerprint is not the digest
  of \<open>foo\<close>, which includes the manager the constructor builds and one with both
  fingerprints at the digest of the empty content, a cycle whose adapters return
  Wayland = \<open>foo\<close> and X11 = \<open>bar\<close> invokes exactly one write, \<open>xclip -i\<close> with
  \<open>foo\<close>, and none to the Wayland side; after the cycle the X11 clipboard holds
  \<open>foo\<close> when that run succeeded and still \<open>bar\<close> when it failed, and Wayland holds
  \<open>foo\<close> as before.
\<close>

theorem tie_break:
  assumes "hash ''foo'' \<noteq> lastWaylandHash cm"
    and "observed cm env = \<lparr>wayland_clip = ''foo'', x11_clip = ''bar''\<rparr>"
  shows "invocations (cycle_fx cm env) = [WlPaste, XclipOut, XclipIn ''foo''] \<and>
         writes (cycle_fx cm env) = [XclipIn ''foo''] \<and>
         x11_clip (endpoints_after env (cycle_fx cm env) (observed cm env)) =
           (if run_fails env (XclipIn ''foo'') then ''bar'' else ''foo'') \<and>
         wayland_clip (endpoints_after env (cycle_fx cm env) (observed cm env)) = ''foo''"
proof -
  have "invocations (cycle_fx cm env) = [WlPaste, XclipOut, XclipIn ''foo'']"
    by (rule cycle_to_x11(1) [OF assms(2)]) (rule assms(1), simp, simp add: hash_foo hash_bar)
  then show ?thesis
    by (simp add: writes_def endpoints_after_def assms(2))
qed

theorem tie_break_witness:
  "NewClipboardManager readonly_home stdout_config = Inr (manager_with '''' '''' 52428800) \<and>
   hash ''foo'' \<noteq> lastWaylandHash (manager_with '''' '''' 52428800) \<and>
   observed (manager_with '''' '''' 52428800)
     \<lparr>wl_paste = Inr ''foo'', xclip_out = Inr ''bar'', xclip_in = None, wl_copy = None\<rparr> =
     \<lparr>wayland_clip = ''foo'', x11_clip = ''bar''\<rparr> \<and>
   writes (cycle_fx (manager_with '''' '''' 52428800)
     \<lparr>wl_paste = Inr ''foo'', xclip_out = Inr ''bar'', xclip_in = None, wl_copy = None\<rparr>) =
     [XclipIn ''foo''] \<and>
   x11_clip (endpoints_after
     \<lparr>wl_paste = Inr ''foo'', xclip_out = Inr ''bar'', xclip_in = None, wl_copy = None\<rparr>
     (cycle_fx (manager_with '''' '''' 52428800)
        \<lparr>wl_paste = Inr ''foo'', xclip_out = Inr ''bar'', xclip_in = None, wl_copy = None\<rparr>)
     (observed (manager_with '''' '''' 52428800)
        \<lparr>wl_paste = Inr ''foo'', xclip_out = Inr ''bar'', xclip_in = None, wl_copy = None\<rparr>)) =
     ''foo'' \<and>
   hash ''foo'' \<noteq> lastWaylandHash (manager_with (hash '''') (hash '''') 100) \<and>
   writes (cycle_fx (manager_with (hash '''') (hash '''') 100)
     \<lparr>wl_paste = Inr ''foo'', xclip_out = Inr ''bar'', xclip_in = None, wl_copy = None\<rparr>) =
     [XclipIn ''foo'']"
proof -
  let ?cm = "manager_with '''' '''' 52428800"
  let ?cm' = "manager_with (hash '''') (hash '''') 100"
  let ?env = "\<lparr>wl_paste = Inr ''foo'', xclip_out = Inr ''bar'', xclip_in = None, wl_copy = None\<rparr>"
  have h0: "NewClipboardManager readonly_home stdout_config = Inr ?cm"
    by (simp add: NewClipboardManager_def stdout_config_def manager_with_def wrap_int64_def
        Millisecond_def Second_def)
  have h1: "hash ''foo'' \<noteq> lastWaylandHash ?cm"
    by (simp add: manager_with_simps hash_not_empty)
  have h2: "observed ?cm ?env = \<lparr>wayland_clip = ''foo'', x11_clip = ''bar''\<rparr>"
    by (rule observed_reads) (simp_all add: manager_with_simps)
  have h3: "hash ''foo'' \<noteq> lastWaylandHash ?cm'"
    by (simp add: manager_with_simps hash_foo hash_empty)
  have h4: "observed ?cm' ?env = \<lparr>wayland_clip = ''foo'', x11_clip = ''bar''\<rparr>"
    by (rule observed_reads) (simp_all add: manager_with_simps)
  from tie_break [OF h1 h2] tie_break [OF h3 h4] h0 h1 h2 h3 show ?thesis
    by simp
qed

text \<open>
  C4, write-failure atomicity, as the claim states it: when the write run fails,
  the fingerprint of the destination side is left as it was and the next cycle
  tries again. The code advances the fingerprint whatever the run did. Here the
  fresh manager reads \<open>foo\<close> on Wayland and nothing on X11, \<open>xclip -i\<close> fails, the X11
  fingerprint has changed all the same, and the next cycle, in the same
  environment, invokes no write.
\<close>

theorem write_failure_counterexample:
  "XclipIn ''foo'' \<in> set (invocations (cycle_fx (manager_with '''' '''' 100)
      \<lparr>wl_paste = Inr ''foo'', xclip_out = Inl OtherFailure,
       xclip_in = Some OtherFailure, wl_copy = None\<rparr>)) \<and>
   run_fails
      \<lparr>wl_paste = Inr ''foo'', xclip_out = Inl OtherFailure,
       xclip_in = Some OtherFailure, wl_copy = None\<rparr> (XclipIn ''foo'') \<and>
   lastX11Hash (next_cm (manager_with '''' '''' 100)
      \<lparr>wl_paste = Inr ''foo'', xclip_out = Inl OtherFailure,
       xclip_in = Some OtherFailure, wl_copy = None\<rparr>) \<noteq>
   lastX11Hash (manager_with '''' '''' 100) \<and>
   writes (cycle_fx
     (next_cm (manager_with '''' '''' 100)
        \<lparr>wl_paste = Inr ''foo'', xclip_out = Inl OtherFailure,
         xclip_in = Some OtherFailure, wl_copy = None\<rparr>)
     \<lparr>wl_paste = Inr ''foo'', xclip_out = Inl OtherFailure,
      xclip_in = Some OtherFailure, wl_copy = None\<rparr>) = []"
proof -
  let ?cm = "manager_with '''' '''' 100"
  let ?env = "\<lparr>wl_paste = Inr ''foo'', xclip_out = Inl OtherFailure,
               xclip_in = Some OtherFailure, wl_copy = None\<rparr>"
  have o1: "observed ?cm ?env = \<lparr>wayland_clip = ''foo'', x11_clip = ''''\<rparr>"
    by (simp add: observed_def getWayland_result getX11_result manager_with_simps)
  have o2: "observed (next_cm ?cm ?env) ?env = \<lparr>wayland_clip = ''foo'', x11_clip = ''''\<rparr>"
    unfolding observed_next by (rule o1)
  have i1: "invocations (cycle_fx ?cm ?env) = [WlPaste, XclipOut, XclipIn ''foo'']"
    by (rule cycle_to_x11(1) [OF o1])
       (simp_all add: manager_with_simps hash_not_empty hash_foo hash_empty)
  have s1: "lastWaylandHash (next_cm ?cm ?env) = hash ''foo''"
    by (rule cycle_to_x11(2) [OF o1])
       (simp_all add: manager_with_simps hash_not_empty hash_foo hash_empty)
  have s2: "lastX11Hash (next_cm ?cm ?env) = hash ''foo''"
    by (rule cycle_to_x11(3) [OF o1])
       (simp_all add: manager_with_simps hash_not_empty hash_foo hash_empty)
  have i2: "invocations (cycle_fx (next_cm ?cm ?env) ?env) = [WlPaste, XclipOut]"
    by (rule cycle_idle(1) [OF o2]) (simp_all add: s1)
  from i1 s2 i2 show ?thesis
    by (simp add: writes_def manager_with_simps hash_not_empty)
qed

text \<open>
  C4 as amended: both write adapters return \<open>nil\<close> on every path; the manager
  after a cycle and the tools the cycle invokes are the same whatever the two
  write runs do; whenever a cycle invokes \<open>xclip -i\<close> with content \<open>c\<close> the X11
  fingerprint after the cycle is the digest of \<open>c\<close>, and whenever it invokes
  \<open>wl-copy\<close> with \<open>c\<close> the Wayland fingerprint is the digest of \<open>c\<close>, whether the
  run succeeded, timed out or failed.
\<close>

theorem write_outcome_ignored:
  "fst (setX11Clipboard cm content run) = None \<and>
   fst (setWaylandClipboard cm content run) = None \<and>
   next_cm cm (env\<lparr>xclip_in := r1, wl_copy := r2\<rparr>) = next_cm cm env \<and>
   invocations (cycle_fx cm (env\<lparr>xclip_in := r1, wl_copy := r2\<rparr>)) = invocations (cycle_fx cm env) \<and>
   (XclipIn c \<in> set (invocations (cycle_fx cm env)) \<longrightarrow> lastX11Hash (next_cm cm env) = hash c) \<and>
   (WlCopy c \<in> set (invocations (cycle_fx cm env)) \<longrightarrow> lastWaylandHash (next_cm cm env) = hash c)"
proof -
  have o: "observed cm (env\<lparr>xclip_in := r1, wl_copy := r2\<rparr>) = observed cm env"
    by (simp add: observed_def)
  show ?thesis
    by (simp add: setX11_result setWayland_result sync_invocations sync_state Let_def o)
qed

theorem write_outcome_ignored_witness:
  "XclipIn ''foo'' \<in> set (invocations (cycle_fx (manager_with '''' '''' 100)
      \<lparr>wl_paste = Inr ''foo'', xclip_out = Inr ''bar'', xclip_in = None, wl_copy = None\<rparr>)) \<and>
   lastX11Hash (next_cm (manager_with '''' '''' 100)
      \<lparr>wl_paste = Inr ''foo'', xclip_out = Inr ''bar'', xclip_in = None, wl_copy = None\<rparr>) =
     hash ''foo'' \<and>
   next_cm (manager_with '''' '''' 100)
      (\<lparr>wl_paste = Inr ''foo'', xclip_out = Inr ''bar'', xclip_in = None, wl_copy = None\<rparr>
        \<lparr>xclip_in := Some DeadlineExceeded, wl_copy := None\<rparr>) =
   next_cm (manager_with '''' '''' 100)
      \<lparr>wl_paste = Inr ''foo'', xclip_out = Inr ''bar'', xclip_in = None, wl_copy = None\<rparr> \<and>
   WlCopy ''bar'' \<in> set (invocations (cycle_fx (manager_with '''' '''' 100)
      \<lparr>wl_paste = Inl OtherFailure, xclip_out = Inr ''bar'', xclip_in = None, wl_copy = None\<rparr>)) \<and>
   lastWaylandHash (next_cm (manager_with '''' '''' 100)
      \<lparr>wl_paste = Inl OtherFailure, xclip_out = Inr ''bar'', xclip_in = None, wl_copy = None\<rparr>) =
     hash ''bar''"
proof -
  let ?cm = "manager_with '''' '''' 100"
  let ?e1 = "\<lparr>wl_paste = Inr ''foo'', xclip_out = Inr ''bar'', xclip_in = None, wl_copy = None\<rparr>"
  let ?e2 = "\<lparr>wl_paste = Inl OtherFailure, xclip_out = Inr ''bar'', xclip_in = None, wl_copy = None\<rparr>"
  have o1: "observed ?cm ?e1 = \<lparr>wayland_clip = ''foo'', x11_clip = ''bar''\<rparr>"
    by (rule observed_reads) (simp_all add: manager_with_simps)
  have o2: "observed ?cm ?e2 = \<lparr>wayland_clip = '''', x11_clip = ''bar''\<rparr>"
    by (simp add: observed_def getWayland_result getX11_result manager_with_simps)
  have h1: "XclipIn ''foo'' \<in> set (invocations (cycle_fx ?cm ?e1))"
    by (subst cycle_to_x11(1) [OF o1])
       (simp_all add: manager_with_simps hash_not_empty hash_foo hash_bar)
  have h2: "WlCopy ''bar'' \<in> set (invocations (cycle_fx ?cm ?e2))"
    by (subst cycle_to_wayland(1) [OF o2])
       (simp_all add: manager_with_simps hash_not_empty hash_empty hash_bar)
  from write_outcome_ignored [where cm = ?cm and env = ?e1 and ?r1.0 = "Some DeadlineExceeded"
         and ?r2.0 = None and c = "''foo''"]
       write_outcome_ignored [where cm = ?cm and env = ?e2 and ?r1.0 = None
         and ?r2.0 = None and c = "''bar''"] h1 h2
  show ?thesis
    by blast
qed

text \<open>
  C5, initial fingerprints, as the claim states it: after \<open>NewClipboardManager\<close>
  both fingerprints are \<open>hash("")\<close>. The constructor does not set them; they are
  the empty string, and the digest of the empty content is 64 hexadecimal digits.
  Here the manager is built from the README's configuration with logging to
  standard output.
\<close>

theorem initial_fingerprints_counterexample:
  "NewClipboardManager readonly_home stdout_config = Inr (manager_with '''' '''' 52428800) \<and>
   lastWaylandHash (manager_with '''' '''' 52428800) \<noteq> hash '''' \<and>
   lastX11Hash (manager_with '''' '''' 52428800) \<noteq> hash ''''"
  by (simp add: NewClipboardManager_def stdout_config_def manager_with_def wrap_int64_def
      Millisecond_def Second_def hash_not_empty [THEN not_sym])

text \<open>
  C5 as amended: immediately after \<open>NewClipboardManager\<close> succeeds, both
  \<open>lastWaylandHash\<close> and \<open>lastX11Hash\<close> are the empty string, which is the digest
  of no content at all.
\<close>

theorem initial_fingerprints:
  assumes "NewClipboardManager os config = Inr cm"
  shows "lastWaylandHash cm = '''' \<and> lastX11Hash cm = '''' \<and>
         lastWaylandHash cm \<noteq> hash content \<and> lastX11Hash cm \<noteq> hash content"
proof -
  from assms have "lastWaylandHash cm = '''' \<and> lastX11Hash cm = ''''"
    by (auto simp: NewClipboardManager_def Let_def split: if_splits)
  then show ?thesis
    using hash_not_empty [of content] by simp
qed

theorem initial_fingerprints_witness:
  "NewClipboardManager readonly_home stdout_config = Inr (manager_with '''' '''' 52428800) \<and>
   lastWaylandHash (manager_with '''' '''' 52428800) = '''' \<and>
   lastX11Hash (manager_with '''' '''' 52428800) = '''' \<and>
   lastWaylandHash (manager_with '''' '''' 52428800) \<noteq> hash ''foo''"
proof -
  have h: "NewClipboardManager readonly_home stdout_config = Inr (manager_with '''' '''' 52428800)"
    by (simp add: NewClipboardManager_def stdout_config_def manager_with_def wrap_int64_def
        Millisecond_def Second_def)
  from initial_fingerprints [OF h, of "''foo''"] h show ?thesis
    by blast
qed

text \<open>
  C6, size guard. A read that obtains content longer than \<open>maxClipboardSize\<close>
  returns the empty string, on either side; a write adapter given such content
  invokes no tool; and no write invocation of a cycle carries content longer than
  the limit.
\<close>

theorem size_guard:
  "(maxClipboardSize cm < int (length c) \<longrightarrow>
      fst (getWaylandClipboard cm (Inr c)) = ('''', None) \<and>
      fst (getX11Clipboard cm (Inr c)) = ('''', None) \<and>
      invocations (snd (setX11Clipboard cm c r)) = [] \<and>
      invocations (snd (setWaylandClipboard cm c r)) = []) \<and>
   (XclipIn d \<in> set (invocations (cycle_fx cm env)) \<or>
    WlCopy d \<in> set (invocations (cycle_fx cm env))
      \<longrightarrow> int (length d) \<le> maxClipboardSize cm)"
  using observed_bounded [of cm env]
  by (auto simp: getWayland_result getX11_result setX11_invocations setWayland_invocations
      sync_invocations Let_def split: if_splits)

theorem size_guard_witness:
  "maxClipboardSize (manager_with '''' '''' 10) < int (length ''hello world'') \<and>
   fst (getWaylandClipboard (manager_with '''' '''' 10) (Inr ''hello world'')) = ('''', None) \<and>
   invocations (snd (setX11Clipboard (manager_with '''' '''' 10) ''hello world'' None)) = [] \<and>
   XclipIn ''foo'' \<in> set (invocations (cycle_fx (manager_with '''' '''' 10)
      \<lparr>wl_paste = Inr ''foo'', xclip_out = Inr ''bar'', xclip_in = None, wl_copy = None\<rparr>)) \<and>
   int (length ''foo'') \<le> maxClipboardSize (manager_with '''' '''' 10)"
proof -
  let ?cm = "manager_with '''' '''' 10"
  let ?env = "\<lparr>wl_paste = Inr ''foo'', xclip_out = Inr ''bar'', xclip_in = None, wl_copy = None\<rparr>"
  have h1: "maxClipboardSize ?cm < int (length ''hello world'')"
    by (simp add: manager_with_simps)
  have o: "observed ?cm ?env = \<lparr>wayland_clip = ''foo'', x11_clip = ''bar''\<rparr>"
    by (rule observed_reads) (simp_all add: manager_with_simps)
  have h2: "XclipIn ''foo'' \<in> set (invocations (cycle_fx ?cm ?env))"
    by (subst cycle_to_x11(1) [OF o])
       (simp_all add: manager_with_simps hash_not_empty hash_foo hash_bar)
  from size_guard [where cm = ?cm and c = "''hello world''" and r = None and d = "''foo''"
         and env = ?env] h1 h2
  show ?thesis
    by blast
qed

text \<open>
  C7, read guarantee. Each read adapter returns a \<open>nil\<close> error whatever the tool
  did, and its result is the empty string or has at most \<open>maxClipboardSize\<close>
  bytes; it is the empty string when the run fails or times out and when the
  content is longer than the limit, and the content itself otherwise.
\<close>

theorem read_guarantee:
  "snd (fst (getWaylandClipboard cm r)) = None \<and> snd (fst (getX11Clipboard cm r)) = None \<and>
   (fst (fst (getWaylandClipboard cm r)) = '''' \<or>
      int (length (fst (fst (getWaylandClipboard cm r)))) \<le> maxClipboardSize cm) \<and>
   (fst (fst (getX11Clipboard cm r)) = '''' \<or>
      int (length (fst (fst (getX11Clipboard cm r)))) \<le> maxClipboardSize cm) \<and>
   fst (fst (getWaylandClipboard cm r)) =
     (case r of Inl e \<Rightarrow> ''''
      | Inr c \<Rightarrow> if maxClipboardSize cm < int (length c) then '''' else c) \<and>
   fst (fst (getX11Clipboard cm r)) =
     (case r of Inl e \<Rightarrow> ''''
      | Inr c \<Rightarrow> if maxClipboardSize cm < int (length c) then '''' else c)"
  by (auto simp: getWayland_result getX11_result split: sum.splits)

theorem read_guarantee_witness:
  "getWaylandClipboard (manager_with '''' '''' 10) (Inr ''foo'') = ((''foo'', None), [Invoke WlPaste]) \<and>
   fst (getX11Clipboard (manager_with '''' '''' 10) (Inl DeadlineExceeded)) = ('''', None) \<and>
   fst (getX11Clipboard (manager_with '''' '''' 10) (Inr ''hello world'')) = ('''', None) \<and>
   int (length (fst (fst (getWaylandClipboard (manager_with '''' '''' 10) (Inr ''foo''))))) \<le>
     maxClipboardSize (manager_with '''' '''' 10)"
  using read_guarantee [of "manager_with '''' '''' 10" "Inr ''foo''"]
  by (simp add: getWaylandClipboard_def getX11Clipboard_def manager_with_def)

text \<open>
  C8, fingerprint invariant, as the claim states it: at the end of every cycle each
  fingerprint is the digest of the content this cycle read on that side or wrote
  to it. A side whose read is empty and which is not written keeps its old
  fingerprint. Here both fingerprints are the digest of \<open>foo\<close>, both reads fail,
  nothing is written, and the fingerprints are still the digest of \<open>foo\<close>, not of
  the empty content the reads gave.
\<close>

theorem fingerprint_invariant_counterexample:
  "observed (manager_with (hash ''foo'') (hash ''foo'') 100)
     \<lparr>wl_paste = Inl OtherFailure, xclip_out = Inl OtherFailure,
      xclip_in = None, wl_copy = None\<rparr> = \<lparr>wayland_clip = '''', x11_clip = ''''\<rparr> \<and>
   writes (cycle_fx (manager_with (hash ''foo'') (hash ''foo'') 100)
     \<lparr>wl_paste = Inl OtherFailure, xclip_out = Inl OtherFailure,
      xclip_in = None, wl_copy = None\<rparr>) = [] \<and>
   lastWaylandHash (next_cm (manager_with (hash ''foo'') (hash ''foo'') 100)
     \<lparr>wl_paste = Inl OtherFailure, xclip_out = Inl OtherFailure,
      xclip_in = None, wl_copy = None\<rparr>) \<noteq> hash '''' \<and>
   lastX11Hash (next_cm (manager_with (hash ''foo'') (hash ''foo'') 100)
     \<lparr>wl_paste = Inl OtherFailure, xclip_out = Inl OtherFailure,
      xclip_in = None, wl_copy = None\<rparr>) \<noteq> hash ''''"
proof -
  let ?cm = "manager_with (hash ''foo'') (hash ''foo'') 100"
  let ?env = "\<lparr>wl_paste = Inl OtherFailure, xclip_out = Inl OtherFailure,
               xclip_in = None, wl_copy = None\<rparr>"
  have o: "observed ?cm ?env = \<lparr>wayland_clip = '''', x11_clip = ''''\<rparr>"
    by (rule observed_failed_reads) simp_all
  have i: "invocations (cycle_fx ?cm ?env) = [WlPaste, XclipOut]"
    by (rule cycle_idle(1) [OF o]) simp_all
  have s: "next_cm ?cm ?env = ?cm"
    by (rule cycle_idle(2) [OF o]) simp_all
  from o i s show ?thesis
    by (simp add: writes_def manager_with_simps hash_foo hash_empty)
qed

text \<open>
  C8 as amended: at the end of every cycle, a side the cycle wrote to has the
  digest of the written content as its fingerprint; a side it did not write to
  has the digest of the content read on that side when the read was not empty,
  and its fingerprint from before the cycle when the read was empty.
\<close>

theorem fingerprints_track:
  "(XclipIn c \<in> set (invocations (cycle_fx cm env)) \<longrightarrow> lastX11Hash (next_cm cm env) = hash c) \<and>
   (WlCopy c \<in> set (invocations (cycle_fx cm env)) \<longrightarrow> lastWaylandHash (next_cm cm env) = hash c) \<and>
   ((\<forall>d. WlCopy d \<notin> set (invocations (cycle_fx cm env))) \<longrightarrow>
      lastWaylandHash (next_cm cm env) =
        (if wayland_clip (observed cm env) \<noteq> '''' then hash (wayland_clip (observed cm env))
         else lastWaylandHash cm)) \<and>
   ((\<forall>d. XclipIn d \<notin> set (invocations (cycle_fx cm env))) \<longrightarrow>
      lastX11Hash (next_cm cm env) =
        (if x11_clip (observed cm env) \<noteq> '''' then hash (x11_clip (observed cm env))
         else lastX11Hash cm))"
  by (simp add: sync_invocations sync_state Let_def)

theorem fingerprints_track_witness:
  "XclipIn ''foo'' \<in> set (invocations (cycle_fx (manager_with '''' '''' 100)
      \<lparr>wl_paste = Inr ''foo'', xclip_out = Inr ''bar'', xclip_in = None, wl_copy = None\<rparr>)) \<and>
   (\<forall>d. WlCopy d \<notin> set (invocations (cycle_fx (manager_with '''' '''' 100)
      \<lparr>wl_paste = Inr ''foo'', xclip_out = Inr ''bar'', xclip_in = None, wl_copy = None\<rparr>))) \<and>
   lastX11Hash (next_cm (manager_with '''' '''' 100)
      \<lparr>wl_paste = Inr ''foo'', xclip_out = Inr ''bar'', xclip_in = None, wl_copy = None\<rparr>) =
     hash ''foo'' \<and>
   lastWaylandHash (next_cm (manager_with '''' '''' 100)
      \<lparr>wl_paste = Inr ''foo'', xclip_out = Inr ''bar'', xclip_in = None, wl_copy = None\<rparr>) =
     hash ''foo'' \<and>
   WlCopy ''bar'' \<in> set (invocations (cycle_fx (manager_with '''' '''' 100)
      \<lparr>wl_paste = Inl OtherFailure, xclip_out = Inr ''bar'', xclip_in = None, wl_copy = None\<rparr>)) \<and>
   (\<forall>d. XclipIn d \<notin> set (invocations (cycle_fx (manager_with '''' '''' 100)
      \<lparr>wl_paste = Inl OtherFailure, xclip_out = Inr ''bar'', xclip_in = None, wl_copy = None\<rparr>))) \<and>
   lastWaylandHash (next_cm (manager_with '''' '''' 100)
      \<lparr>wl_paste = Inl OtherFailure, xclip_out = Inr ''bar'', xclip_in = None, wl_copy = None\<rparr>) =
     hash ''bar'' \<and>
   lastX11Hash (next_cm (manager_with '''' '''' 100)
      \<lparr>wl_paste = Inl OtherFailure, xclip_out = Inr ''bar'', xclip_in = None, wl_copy = None\<rparr>) =
     hash ''bar''"
proof -
  let ?cm = "manager_with '''' '''' 100"
  let ?e1 = "\<lparr>wl_paste = Inr ''foo'', xclip_out = Inr ''bar'', xclip_in = None, wl_copy = None\<rparr>"
  let ?e2 = "\<lparr>wl_paste = Inl OtherFailure, xclip_out = Inr ''bar'', xclip_in = None, wl_copy = None\<rparr>"
  have o1: "observed ?cm ?e1 = \<lparr>wayland_clip = ''foo'', x11_clip = ''bar''\<rparr>"
    by (rule observed_reads) (simp_all add: manager_with_simps)
  have o2: "observed ?cm ?e2 = \<lparr>wayland_clip = '''', x11_clip = ''bar''\<rparr>"
    by (simp add: observed_def getWayland_result getX11_result manager_with_simps)
  have i1: "invocations (cycle_fx ?cm ?e1) = [WlPaste, XclipOut, XclipIn ''foo'']"
    by (rule cycle_to_x11(1) [OF o1])
       (simp_all add: manager_with_simps hash_not_empty hash_foo hash_bar)
  have i2: "invocations (cycle_fx ?cm ?e2) = [WlPaste, XclipOut, WlCopy ''bar'']"
    by (rule cycle_to_wayland(1) [OF o2])
       (simp_all add: manager_with_simps hash_not_empty hash_empty hash_bar)
  have h1: "XclipIn ''foo'' \<in> set (invocations (cycle_fx ?cm ?e1))"
    and h2: "\<forall>d. WlCopy d \<notin> set (invocations (cycle_fx ?cm ?e1))"
    by (simp_all add: i1)
  have h3: "WlCopy ''bar'' \<in> set (invocations (cycle_fx ?cm ?e2))"
    and h4: "\<forall>d. XclipIn d \<notin> set (invocations (cycle_fx ?cm ?e2))"
    by (simp_all add: i2)
  from fingerprints_track [where cm = ?cm and env = ?e1 and c = "''foo''"] h1 h2
  have a: "lastX11Hash (next_cm ?cm ?e1) = hash ''foo''"
      "lastWaylandHash (next_cm ?cm ?e1) = hash ''foo''"
    by (simp_all add: o1)
  from fingerprints_track [where cm = ?cm and env = ?e2 and c = "''bar''"] h3 h4
  have b: "lastWaylandHash (next_cm ?cm ?e2) = hash ''bar''"
      "lastX11Hash (next_cm ?cm ?e2) = hash ''bar''"
    by (simp_all add: o2)
  from h1 h2 h3 h4 a b show ?thesis
    by blast
qed

text \<open>
  C10, at most one write in a cycle. A cycle invokes at most one write and at most
  three tools in all; when it invokes \<open>xclip -i\<close> it invokes no \<open>wl-copy\<close>, and the
  X11 fingerprint it leaves is the digest of the content just written.
\<close>

theorem at_most_one_write:
  "length (writes (cycle_fx cm env)) \<le> 1 \<and> length (invocations (cycle_fx cm env)) \<le> 3 \<and>
   (XclipIn c \<in> set (invocations (cycle_fx cm env)) \<longrightarrow>
      (\<forall>d. WlCopy d \<notin> set (invocations (cycle_fx cm env))) \<and>
      lastX11Hash (next_cm cm env) = hash c)"
  by (simp add: writes_sync sync_invocations sync_state Let_def)

theorem at_most_one_write_witness:
  "XclipIn ''foo'' \<in> set (invocations (cycle_fx (manager_with '''' '''' 100)
      \<lparr>wl_paste = Inr ''foo'', xclip_out = Inr ''bar'', xclip_in = None, wl_copy = None\<rparr>)) \<and>
   length (writes (cycle_fx (manager_with '''' '''' 100)
      \<lparr>wl_paste = Inr ''foo'', xclip_out = Inr ''bar'', xclip_in = None, wl_copy = None\<rparr>)) \<le> 1 \<and>
   (\<forall>d. WlCopy d \<notin> set (invocations (cycle_fx (manager_with '''' '''' 100)
      \<lparr>wl_paste = Inr ''foo'', xclip_out = Inr ''bar'', xclip_in = None, wl_copy = None\<rparr>))) \<and>
   lastX11Hash (next_cm (manager_with '''' '''' 100)
      \<lparr>wl_paste = Inr ''foo'', xclip_out = Inr ''bar'', xclip_in = None, wl_copy = None\<rparr>) =
     hash ''foo''"
proof -
  let ?cm = "manager_with '''' '''' 100"
  let ?e1 = "\<lparr>wl_paste = Inr ''foo'', xclip_out = Inr ''bar'', xclip_in = None, wl_copy = None\<rparr>"
  have o1: "observed ?cm ?e1 = \<lparr>wayland_clip = ''foo'', x11_clip = ''bar''\<rparr>"
    by (rule observed_reads) (simp_all add: manager_with_simps)
  have h1: "XclipIn ''foo'' \<in> set (invocations (cycle_fx ?cm ?e1))"
    by (subst cycle_to_x11(1) [OF o1])
       (simp_all add: manager_with_simps hash_not_empty hash_foo hash_bar)
  from at_most_one_write [where cm = ?cm and env = ?e1 and c = "''foo''"] h1 show ?thesis
    by blast
qed










end
